theory Spec2Isabelle
  imports Complex_Main
begin

section \<open>The capstone simulator (portal/capstone/models.py)\<close>

text \<open>
  A shallow embedding of the Django models of \<^verbatim>\<open>portal/capstone/models.py\<close> and of the
  methods of \<^verbatim>\<open>Simulator\<close>: \<^verbatim>\<open>start\<close>, \<^verbatim>\<open>create_due_datapoints\<close>,
  \<^verbatim>\<open>add_student_app\<close> and \<^verbatim>\<open>reset\<close>.

  \<^item> A \<^verbatim>\<open>datetime\<close> is the number of microseconds since the epoch (an \<open>int\<close>), a
    \<^verbatim>\<open>timedelta\<close> a number of microseconds; a nullable field is an \<open>option\<close>. The bounds of
    Python's \<^verbatim>\<open>datetime\<close> (years 1 to 9999) are not modelled.
  \<^item> A row is a record; a foreign key is the primary key of the row it points to. A table
    is the list of its rows in the order in which a query set without \<^verbatim>\<open>order_by\<close> yields
    them.
  \<^item> A method takes the Python object \<^verbatim>\<open>self\<close> and the database and returns both as it
    leaves them, together with the exception it raised, if any. Nothing is rolled back
    when an exception is raised: the source opens no transaction.
  \<^item> The floating-point arithmetic of the capacity check is done on rationals: the
    rounding of IEEE doubles is not modelled.
  \<^item> The database has a single writer: no other process changes it during a call.
\<close>

subsection \<open>Exceptions\<close>

text \<open>
  The exceptions the methods can raise. \<open>RuntimeError\<close> carries the two figures of its
  message (required, consumed). \<open>FormatError\<close> stands for whatever \<^verbatim>\<open>str.format\<close> raises
  on a template it cannot render (\<^verbatim>\<open>KeyError\<close>, \<^verbatim>\<open>IndexError\<close>, \<^verbatim>\<open>ValueError\<close>).
  \<open>InvalidSchedule\<close> is the signal the specification names for a schedule that cannot be
  computed; no statement of the source raises it.
\<close>

datatype error =
    TypeError
  | ZeroDivisionError
  | RuntimeError rat int
  | FormatError
  | InvalidSchedule

subsection \<open>Rows and tables\<close>

record student_app =
  sa_capstone :: nat
  sa_student :: nat
  sa_app_name :: string

record datapoint =
  dp_id :: nat
  dp_simulator :: nat
  dp_data :: string

record due_datapoint =
  dd_simulator :: nat
  dd_url :: string
  dd_datapoint :: nat
  dd_student :: nat
  dd_due :: "int option"
  dd_state :: string
  dd_response_content :: string
  dd_response_exception :: "string option"
  dd_response_traceback :: "string option"
  dd_response_elapsed :: "rat option"
  dd_response_status :: "int option"
  dd_response_timeout :: bool

record simulator =
  sim_id :: nat
  capstone :: nat
  name :: string
  started :: "int option"
  ends :: "int option"
  interval :: "int option"
  endpoint :: string
  status :: string

record db =
  simulators :: "nat \<rightharpoonup> simulator"
  student_apps :: "student_app list"
  datapoints :: "datapoint list"
  due_datapoints :: "due_datapoint list"

text \<open>\<^verbatim>\<open>settings.PRODUCER_INTERVAL\<close> (a number of seconds) and \<^verbatim>\<open>settings.BLOCK_SIZE\<close>
  are not defined in this module: they are parameters.\<close>

record settings =
  PRODUCER_INTERVAL :: rat
  BLOCK_SIZE :: int

text \<open>\<^verbatim>\<open>self.endpoint.format(app_name=...)\<close> is Python's \<^verbatim>\<open>str.format\<close>; what it returns
  for a template and an application name, or that it raises, is a parameter of the
  model.\<close>

type_synonym str_format = "string \<Rightarrow> string \<Rightarrow> error + string"

subsection \<open>Python's \<^verbatim>\<open>datetime\<close>, division and logging\<close>

text \<open>\<^verbatim>\<open>a - b\<close> on two datetimes; \<^verbatim>\<open>TypeError\<close> when an operand is \<^verbatim>\<open>None\<close>.\<close>

definition datetime_sub :: "int option \<Rightarrow> int option \<Rightarrow> error + int" where
  "datetime_sub a b =
     (case a of
        None \<Rightarrow> Inl TypeError
      | Some x \<Rightarrow> (case b of None \<Rightarrow> Inl TypeError | Some y \<Rightarrow> Inr (x - y)))"

text \<open>The quotient of two integers rounded to the nearest integer, a tie to the even
  one: what \<^verbatim>\<open>timedelta.__truediv__\<close> does to the microseconds for an \<^verbatim>\<open>int\<close> divisor.\<close>

definition divide_and_round :: "int \<Rightarrow> int \<Rightarrow> int" where
  "divide_and_round a b =
     (let q = a div b;
          r = 2 * (a mod b);
          greater_than_half = (if b > 0 then r > b else r < b)
      in if greater_than_half \<or> (r = b \<and> q mod 2 = 1) then q + 1 else q)"

definition timedelta_truediv :: "int \<Rightarrow> nat \<Rightarrow> error + int" where
  "timedelta_truediv td n =
     (if n = 0 then Inl ZeroDivisionError else Inr (divide_and_round td (int n)))"

definition total_seconds :: "int \<Rightarrow> rat" where
  "total_seconds td = of_int td / 1000000"

definition float_truediv :: "rat \<Rightarrow> rat \<Rightarrow> error + rat" where
  "float_truediv a b = (if b = 0 then Inl ZeroDivisionError else Inr (a / b))"

text \<open>\<^verbatim>\<open>Logger.critical(msg, *args)\<close>: the message is a required positional argument, so a
  call with no argument raises \<^verbatim>\<open>TypeError\<close>; with a message it logs and returns.\<close>

definition logger_critical :: "string list \<Rightarrow> error option" where
  "logger_critical args = (case args of [] \<Rightarrow> Some TypeError | _ # _ \<Rightarrow> None)"

subsection \<open>Queries\<close>

text \<open>\<^verbatim>\<open>self.save()\<close>\<close>

definition save :: "simulator \<Rightarrow> db \<Rightarrow> db" where
  "save self d = d\<lparr>simulators := (simulators d)(sim_id self \<mapsto> self)\<rparr>"

text \<open>\<^verbatim>\<open>self.due_datapoints.all()\<close> and \<^verbatim>\<open>self.due_datapoints.all().delete()\<close>\<close>

definition due_datapoints_all :: "simulator \<Rightarrow> db \<Rightarrow> due_datapoint list" where
  "due_datapoints_all self d =
     filter (\<lambda>x. dd_simulator x = sim_id self) (due_datapoints d)"

definition due_datapoints_delete :: "simulator \<Rightarrow> db \<Rightarrow> db" where
  "due_datapoints_delete self d =
     d\<lparr>due_datapoints := filter (\<lambda>x. dd_simulator x \<noteq> sim_id self) (due_datapoints d)\<rparr>"

text \<open>\<^verbatim>\<open>self.datapoints.all()\<close>\<close>

definition datapoints_all :: "simulator \<Rightarrow> db \<Rightarrow> datapoint list" where
  "datapoints_all self d = filter (\<lambda>p. dp_simulator p = sim_id self) (datapoints d)"

text \<open>\<^verbatim>\<open>StudentApp.objects.filter(capstone=self.capstone).exclude(app_name='')\<close>\<close>

definition eligible_student_apps :: "simulator \<Rightarrow> db \<Rightarrow> student_app list" where
  "eligible_student_apps self d =
     filter (\<lambda>a. sa_app_name a \<noteq> [])
       (filter (\<lambda>a. sa_capstone a = capstone self) (student_apps d))"

text \<open>\<^verbatim>\<open>DueDatapoint.objects.bulk_create(due_datapoints)\<close>\<close>

definition bulk_create :: "due_datapoint list \<Rightarrow> db \<Rightarrow> db" where
  "bulk_create rows d = d\<lparr>due_datapoints := due_datapoints d @ rows\<rparr>"

subsection \<open>\<^verbatim>\<open>Simulator.add_student_app\<close>\<close>

text \<open>The \<^verbatim>\<open>DueDatapoint(...)\<close> constructor call of the loop; the other fields take the
  defaults of the model class.\<close>

definition DueDatapoint :: "simulator \<Rightarrow> datapoint \<Rightarrow> nat \<Rightarrow> int \<Rightarrow> string \<Rightarrow> due_datapoint" where
  "DueDatapoint self p s due url =
     \<lparr>dd_simulator = sim_id self, dd_url = url, dd_datapoint = dp_id p, dd_student = s,
      dd_due = Some due, dd_state = ''due'', dd_response_content = [],
      dd_response_exception = None, dd_response_traceback = None,
      dd_response_elapsed = None, dd_response_status = None,
      dd_response_timeout = False\<rparr>"

text \<open>The loop \<^verbatim>\<open>for datapoint in datapoints\<close>: one row per data point, \<^verbatim>\<open>due += interval\<close>
  after each.\<close>

fun due_rows :: "simulator \<Rightarrow> student_app \<Rightarrow> string \<Rightarrow> int \<Rightarrow> datapoint list \<Rightarrow> int \<Rightarrow> due_datapoint list" where
  "due_rows self a url iv [] due = []"
| "due_rows self a url iv (p # ps) due =
     DueDatapoint self p (sa_student a) due url # due_rows self a url iv ps (due + iv)"

text \<open>\<open>now\<close> is what \<^verbatim>\<open>datetime.now(timezone.utc)\<close> returns; \<open>starts = None\<close> is the
  default of the keyword argument.\<close>

definition add_student_app ::
  "str_format \<Rightarrow> int \<Rightarrow> simulator \<Rightarrow> db \<Rightarrow> student_app \<Rightarrow> datapoint list \<Rightarrow> int option
   \<Rightarrow> error option \<times> db" where
  "add_student_app fmt now self d a ps starts =
     (let due = (case starts of Some s \<Rightarrow> s | None \<Rightarrow> now) in
      case datetime_sub (ends self) starts of
        Inl e \<Rightarrow> (Some e, d)
      | Inr td \<Rightarrow>
         (case timedelta_truediv td (length ps) of
            Inl e \<Rightarrow> (Some e, d)
          | Inr iv \<Rightarrow>
             (case fmt (endpoint self) (sa_app_name a) of
                Inl e \<Rightarrow> (Some e, d)
              | Inr url \<Rightarrow> (None, bulk_create (due_rows self a url iv ps due) d))))"

subsection \<open>\<^verbatim>\<open>Simulator.create_due_datapoints\<close>\<close>

text \<open>The loop \<^verbatim>\<open>for student_app in student_apps\<close>; an exception leaves the loop with
  the rows of the earlier participants already created.\<close>

fun add_student_apps ::
  "str_format \<Rightarrow> int \<Rightarrow> simulator \<Rightarrow> db \<Rightarrow> student_app list \<Rightarrow> datapoint list \<Rightarrow> int
   \<Rightarrow> error option \<times> db" where
  "add_student_apps fmt now self d [] ps starts = (None, d)"
| "add_student_apps fmt now self d (a # as) ps starts =
     (case add_student_app fmt now self d a ps (Some starts) of
        (Some e, d') \<Rightarrow> (Some e, d')
      | (None, d') \<Rightarrow> add_student_apps fmt now self d' as ps starts)"

definition create_due_datapoints ::
  "settings \<Rightarrow> str_format \<Rightarrow> int \<Rightarrow> simulator \<Rightarrow> db \<Rightarrow> int
   \<Rightarrow> error option \<times> simulator \<times> db" where
  "create_due_datapoints cfg fmt now self d starts =
     (let d1 = due_datapoints_delete self d;
          ps = datapoints_all self d1;
          apps = eligible_student_apps self d1
      in case datetime_sub (ends self) (Some starts) of
           Inl e \<Rightarrow> (Some e, self, d1)
         | Inr td \<Rightarrow>
            (case timedelta_truediv td (length ps) of
               Inl e \<Rightarrow> (Some e, self, d1)
             | Inr iv \<Rightarrow>
                (case float_truediv (PRODUCER_INTERVAL cfg) (total_seconds iv) of
                   Inl e \<Rightarrow> (Some e, self, d1)
                 | Inr q \<Rightarrow>
                    (let required_requests_per_cycle = of_nat (length apps) * q in
                     if of_int (BLOCK_SIZE cfg) < required_requests_per_cycle then
                       (case logger_critical [] of
                          Some e \<Rightarrow> (Some e, self, d1)
                        | None \<Rightarrow>
                           (Some (RuntimeError required_requests_per_cycle (BLOCK_SIZE cfg)),
                            self, d1))
                     else
                       (let self1 = self\<lparr>interval := Some iv\<rparr>;
                            d2 = save self1 d1;
                            (e, d3) = add_student_apps fmt now self1 d2 apps ps starts
                        in (e, self1, d3))))))"

subsection \<open>\<^verbatim>\<open>Simulator.start\<close> and \<^verbatim>\<open>Simulator.reset\<close>\<close>

definition start ::
  "settings \<Rightarrow> str_format \<Rightarrow> int \<Rightarrow> simulator \<Rightarrow> db \<Rightarrow> error option \<times> simulator \<times> db" where
  "start cfg fmt now self d =
     (if status self = ''start'' then
        (let self1 = self\<lparr>started := Some now, status := ''started''\<rparr>;
             d1 = save self1 d
         in create_due_datapoints cfg fmt now self1 d1 now)
      else (None, self, d))"

definition reset :: "simulator \<Rightarrow> db \<Rightarrow> simulator \<times> db" where
  "reset self d =
     (if status self = ''reset'' then
        (let d1 = due_datapoints_delete self d;
             self1 = self\<lparr>status := ''stopped''\<rparr>
         in (self1, save self1 d1))
      else (self, d))"

subsection \<open>The batch of a schedule generation\<close>

text \<open>The URL that \<^verbatim>\<open>add_student_app\<close> writes into the rows of a participant, when
  \<^verbatim>\<open>str.format\<close> returns one.\<close>

definition url_of :: "str_format \<Rightarrow> simulator \<Rightarrow> student_app \<Rightarrow> string" where
  "url_of fmt self a =
     (case fmt (endpoint self) (sa_app_name a) of Inl e \<Rightarrow> [] | Inr u \<Rightarrow> u)"

text \<open>The rows of the participants \<open>apps\<close>, one call of the loop body of
  \<^verbatim>\<open>add_student_app\<close> after the other, every participant starting at \<open>starts\<close>.\<close>

definition batch ::
  "str_format \<Rightarrow> simulator \<Rightarrow> student_app list \<Rightarrow> datapoint list \<Rightarrow> int \<Rightarrow> int
   \<Rightarrow> due_datapoint list" where
  "batch fmt self apps ps iv starts =
     concat (map (\<lambda>a. due_rows self a (url_of fmt self a) iv ps starts) apps)"

text \<open>The rows of a run that belong to one student.\<close>

definition due_of_student :: "nat \<Rightarrow> due_datapoint list \<Rightarrow> due_datapoint list" where
  "due_of_student s rows = filter (\<lambda>x. dd_student x = s) rows"

text \<open>The \<open>j\<close>-th block of \<open>n\<close> rows: the rows of the \<open>j\<close>-th participant of a batch
  over \<open>n\<close> data points.\<close>

definition rows_of_enrolment :: "nat \<Rightarrow> nat \<Rightarrow> due_datapoint list \<Rightarrow> due_datapoint list" where
  "rows_of_enrolment j n rows = take n (drop (j * n) rows)"

subsection \<open>A run to evaluate the methods on\<close>

text \<open>Four data points, a window of forty minutes from time 0, two eligible participants
  of the capstone, one enrolment without application name, one of another capstone, a
  data point of another run, and a due row left by an earlier start of the run and one
  of run 2.\<close>

definition example_format :: str_format where
  "example_format t a = Inr (''https://'' @ a @ ''.herokuapp.com/predict'')"

definition example_settings :: settings where
  "example_settings = \<lparr>PRODUCER_INTERVAL = 5, BLOCK_SIZE = 100\<rparr>"

definition example_run :: simulator where
  "example_run =
     \<lparr>sim_id = 1, capstone = 7, name = ''run'', started = None, ends = Some 2400000000,
      interval = None, endpoint = ''https://{app_name}.herokuapp.com/predict'',
      status = ''start''\<rparr>"

definition example_old_row :: "nat \<Rightarrow> due_datapoint" where
  "example_old_row i =
     \<lparr>dd_simulator = i, dd_url = ''old'', dd_datapoint = 1, dd_student = 11,
      dd_due = Some (-5), dd_state = ''success'', dd_response_content = ''ok'',
      dd_response_exception = None, dd_response_traceback = None,
      dd_response_elapsed = Some 1, dd_response_status = Some 200,
      dd_response_timeout = False\<rparr>"

definition example_db :: db where
  "example_db =
     \<lparr>simulators = [1 \<mapsto> example_run],
      student_apps =
        [\<lparr>sa_capstone = 7, sa_student = 11, sa_app_name = ''alpha''\<rparr>,
         \<lparr>sa_capstone = 7, sa_student = 12, sa_app_name = []\<rparr>,
         \<lparr>sa_capstone = 7, sa_student = 13, sa_app_name = ''beta''\<rparr>,
         \<lparr>sa_capstone = 8, sa_student = 14, sa_app_name = ''gamma''\<rparr>],
      datapoints =
        [\<lparr>dp_id = 1, dp_simulator = 1, dp_data = ''a''\<rparr>,
         \<lparr>dp_id = 2, dp_simulator = 1, dp_data = ''b''\<rparr>,
         \<lparr>dp_id = 3, dp_simulator = 5, dp_data = ''x''\<rparr>,
         \<lparr>dp_id = 4, dp_simulator = 1, dp_data = ''c''\<rparr>,
         \<lparr>dp_id = 5, dp_simulator = 1, dp_data = ''d''\<rparr>],
      due_datapoints = [example_old_row 1, example_old_row 2]\<rparr>"

text \<open>The same run with a producer that is too slow for it: two participants, one
  request each per cycle of 600 seconds, a block of one request.\<close>

definition slow_settings :: settings where
  "slow_settings = \<lparr>PRODUCER_INTERVAL = 600, BLOCK_SIZE = 1\<rparr>"

text \<open>The other run of the same capstone, which has a due row and no data point; a run
  with the data points of the example whose capstone has no participant; and a run of
  three data points and no participant whose window is one microsecond.\<close>

definition empty_run :: simulator where
  "empty_run = example_run\<lparr>sim_id := 2\<rparr>"

definition lonely_run :: simulator where
  "lonely_run = example_run\<lparr>capstone := 9\<rparr>"

definition short_run :: simulator where
  "short_run = example_run\<lparr>sim_id := 4, capstone := 9, ends := Some 1\<rparr>"

definition short_db :: db where
  "short_db =
     example_db\<lparr>datapoints :=
        [\<lparr>dp_id = 6, dp_simulator = 4, dp_data = ''a''\<rparr>,
         \<lparr>dp_id = 7, dp_simulator = 4, dp_data = ''b''\<rparr>,
         \<lparr>dp_id = 8, dp_simulator = 4, dp_data = ''c''\<rparr>]\<rparr>"

text \<open>The example with two enrolments of one student in the capstone, both with an
  application name: the model class \<^verbatim>\<open>StudentApp\<close> declares no uniqueness of
  (capstone, student).\<close>

definition duplicate_db :: db where
  "duplicate_db =
     example_db\<lparr>student_apps :=
        [\<lparr>sa_capstone = 7, sa_student = 11, sa_app_name = ''alpha''\<rparr>,
         \<lparr>sa_capstone = 7, sa_student = 11, sa_app_name = ''beta''\<rparr>]\<rparr>"

section \<open>Properties\<close>

subsection \<open>Facts about the rows of one participant\<close>

lemma due_rows_length: "length (due_rows self a url iv ps due) = length ps"
  by (induction ps arbitrary: due) simp_all

lemma due_rows_simulator:
  "x \<in> set (due_rows self a url iv ps due) \<Longrightarrow> dd_simulator x = sim_id self"
  by (induction ps arbitrary: due) (auto simp: DueDatapoint_def)

lemma due_rows_student:
  "x \<in> set (due_rows self a url iv ps due) \<Longrightarrow> dd_student x = sa_student a"
  by (induction ps arbitrary: due) (auto simp: DueDatapoint_def)

lemma due_rows_datapoint: "map dd_datapoint (due_rows self a url iv ps due) = map dp_id ps"
  by (induction ps arbitrary: due) (simp_all add: DueDatapoint_def)

lemma due_rows_due:
  "map dd_due (due_rows self a url iv ps due) =
     map (\<lambda>i. Some (due + int i * iv)) [0..<length ps]"
proof (induction ps arbitrary: due)
  case Nil
  show ?case by simp
next
  case (Cons p ps)
  have "[0..<length (p # ps)] = 0 # map Suc [0..<length ps]"
    by (simp add: upt_conv_Cons map_Suc_upt del: upt_Suc)
  then show ?case
    by (simp add: Cons.IH DueDatapoint_def algebra_simps del: upt_Suc)
qed

lemma due_rows_pairs:
  "map (\<lambda>x. (dd_student x, dd_datapoint x)) (due_rows self a url iv ps due) =
     map (\<lambda>p. (sa_student a, dp_id p)) ps"
  by (induction ps arbitrary: due) (simp_all add: DueDatapoint_def)

lemma due_rows_students:
  "map dd_student (due_rows self a url iv ps due) = replicate (length ps) (sa_student a)"
  by (induction ps arbitrary: due) (simp_all add: DueDatapoint_def)

lemma due_rows_interval [simp]:
  "due_rows (self\<lparr>interval := x\<rparr>) a url iv ps due = due_rows self a url iv ps due"
  by (induction ps arbitrary: due) (simp_all add: DueDatapoint_def)

subsection \<open>Facts about a batch\<close>

lemma batch_Nil: "batch fmt self [] ps iv s = []"
  by (simp add: batch_def)

lemma batch_Cons:
  "batch fmt self (a # as) ps iv s =
     due_rows self a (url_of fmt self a) iv ps s @ batch fmt self as ps iv s"
  by (simp add: batch_def)

lemma batch_interval [simp]:
  "batch fmt (self\<lparr>interval := x\<rparr>) apps ps iv s = batch fmt self apps ps iv s"
  by (simp add: batch_def url_of_def)

lemma batch_length: "length (batch fmt self apps ps iv s) = length ps * length apps"
  by (induction apps) (simp_all add: batch_Nil batch_Cons due_rows_length)

lemma batch_simulator: "x \<in> set (batch fmt self apps ps iv s) \<Longrightarrow> dd_simulator x = sim_id self"
  by (auto simp: batch_def dest: due_rows_simulator)

lemma batch_student:
  "x \<in> set (batch fmt self apps ps iv s) \<Longrightarrow> dd_student x \<in> sa_student ` set apps"
  by (auto simp: batch_def dest: due_rows_student)

lemma batch_pairs_distinct:
  assumes "distinct (map dp_id ps)" and "distinct (map sa_student apps)"
  shows "distinct (map (\<lambda>x. (dd_student x, dd_datapoint x)) (batch fmt self apps ps iv s))"
  using assms(2)
proof (induction apps)
  case Nil
  show ?case by (simp add: batch_Nil)
next
  case (Cons a as)
  have inj: "inj (\<lambda>i. (sa_student a, i))"
    by (simp add: inj_def)
  have "map (\<lambda>p. (sa_student a, dp_id p)) ps = map (\<lambda>i. (sa_student a, i)) (map dp_id ps)"
    by simp
  then have 1: "distinct (map (\<lambda>p. (sa_student a, dp_id p)) ps)"
    using assms(1) inj by (simp only: distinct_map) (auto intro: inj_on_subset)
  have 2: "distinct (map (\<lambda>x. (dd_student x, dd_datapoint x)) (batch fmt self as ps iv s))"
    using Cons by simp
  have 3: "fst ` set (map (\<lambda>x. (dd_student x, dd_datapoint x)) (batch fmt self as ps iv s))
            \<subseteq> sa_student ` set as"
    by (auto dest: batch_student)
  have 4: "sa_student a \<notin> sa_student ` set as"
    using Cons.prems by simp
  have 5: "set (map (\<lambda>p. (sa_student a, dp_id p)) ps) \<inter>
           set (map (\<lambda>x. (dd_student x, dd_datapoint x)) (batch fmt self as ps iv s)) = {}"
    using 3 4 by force
  show ?case
    using 1 2 5 by (simp only: batch_Cons map_append distinct_append due_rows_pairs)
qed

lemma batch_of_student:
  assumes "distinct (map sa_student apps)" and "a \<in> set apps"
  shows "due_of_student (sa_student a) (batch fmt self apps ps iv s) =
           due_rows self a (url_of fmt self a) iv ps s"
  using assms
proof (induction apps)
  case Nil
  then show ?case by simp
next
  case (Cons b bs)
  have own: "\<And>c. due_of_student (sa_student c) (due_rows self c (url_of fmt self c) iv ps s)
               = due_rows self c (url_of fmt self c) iv ps s"
    unfolding due_of_student_def by (rule filter_True) (auto dest: due_rows_student)
  have other: "\<And>c t. t \<noteq> sa_student c \<Longrightarrow>
       due_of_student t (due_rows self c (url_of fmt self c) iv ps s) = []"
    unfolding due_of_student_def by (auto simp: filter_empty_conv dest: due_rows_student)
  have app: "\<And>t xs ys. due_of_student t (xs @ ys) = due_of_student t xs @ due_of_student t ys"
    by (simp add: due_of_student_def)
  show ?case
  proof (cases "a = b")
    case True
    have "sa_student b \<notin> sa_student ` set bs"
      using Cons.prems(1) by simp
    then have "\<And>x. x \<in> set (batch fmt self bs ps iv s) \<Longrightarrow> dd_student x \<noteq> sa_student b"
      by (metis batch_student)
    then have "due_of_student (sa_student b) (batch fmt self bs ps iv s) = []"
      unfolding due_of_student_def filter_empty_conv by blast
    with True show ?thesis
      by (simp add: batch_Cons app own)
  next
    case False
    with Cons.prems have in_bs: "a \<in> set bs" and d: "distinct (map sa_student bs)"
      and nb: "sa_student b \<notin> sa_student ` set bs"
      by auto
    from in_bs have "sa_student a \<in> sa_student ` set bs"
      by (rule imageI)
    with nb have ne: "sa_student a \<noteq> sa_student b"
      by metis
    from Cons.IH[OF d in_bs] other[OF ne] show ?thesis
      by (simp add: batch_Cons app)
  qed
qed

lemma batch_block:
  assumes "j < length apps"
  shows "rows_of_enrolment j (length ps) (batch fmt self apps ps iv s) =
           due_rows self (apps ! j) (url_of fmt self (apps ! j)) iv ps s"
  using assms
proof (induction apps arbitrary: j)
  case Nil
  then show ?case by simp
next
  case (Cons a as)
  show ?case
  proof (cases j)
    case 0
    then show ?thesis
      by (simp add: rows_of_enrolment_def batch_Cons due_rows_length)
  next
    case (Suc k)
    with Cons.prems have k: "k < length as"
      by simp
    have "drop (Suc k * length ps) (batch fmt self (a # as) ps iv s) =
          drop (k * length ps) (batch fmt self as ps iv s)"
      by (simp add: batch_Cons due_rows_length)
    with Cons.IH[OF k] Suc show ?thesis
      by (simp add: rows_of_enrolment_def)
  qed
qed

subsection \<open>What a call that returns has done\<close>

lemma add_student_app_Some_ok:
  assumes "add_student_app fmt now self d a ps (Some s) = (None, d')"
  shows "\<exists>e iv. ends self = Some e \<and> ps \<noteq> [] \<and> iv = divide_and_round (e - s) (int (length ps))
     \<and> d' = bulk_create (due_rows self a (url_of fmt self a) iv ps s) d"
  using assms
  by (auto simp: add_student_app_def datetime_sub_def timedelta_truediv_def url_of_def
      split: option.splits sum.splits if_splits)

lemma add_student_apps_ok:
  assumes "add_student_apps fmt now self d apps ps s = (None, d')"
    and "ends self = Some e"
  shows "d' = bulk_create (batch fmt self apps ps (divide_and_round (e - s) (int (length ps))) s) d"
  using assms
proof (induction apps arbitrary: d)
  case Nil
  then show ?case by (simp add: batch_def bulk_create_def)
next
  case (Cons a as)
  from Cons.prems(1) obtain d1 where
    1: "add_student_app fmt now self d a ps (Some s) = (None, d1)"
    and 2: "add_student_apps fmt now self d1 as ps s = (None, d')"
    by (auto split: prod.splits option.splits)
  from add_student_app_Some_ok[OF 1] Cons.prems(2)
  have d1: "d1 = bulk_create (due_rows self a (url_of fmt self a) (divide_and_round (e - s) (int (length ps))) ps s) d"
    by auto
  from Cons.IH[OF 2 Cons.prems(2)] d1 show ?case
    by (simp add: batch_def bulk_create_def)
qed


lemma datapoints_all_delete [simp]:
  "datapoints_all self (due_datapoints_delete self d) = datapoints_all self d"
  by (simp add: datapoints_all_def due_datapoints_delete_def)

lemma eligible_delete [simp]:
  "eligible_student_apps self (due_datapoints_delete self d) = eligible_student_apps self d"
  by (simp add: eligible_student_apps_def due_datapoints_delete_def)

lemma create_due_datapoints_ok:
  assumes "create_due_datapoints cfg fmt now self d starts = (None, self', d')"
  shows "\<exists>e iv. ends self = Some e \<and> datapoints_all self d \<noteq> []
     \<and> iv = divide_and_round (e - starts) (int (length (datapoints_all self d)))
     \<and> iv \<noteq> 0
     \<and> \<not> of_int (BLOCK_SIZE cfg) < of_nat (length (eligible_student_apps self d)) * (PRODUCER_INTERVAL cfg / total_seconds iv)
     \<and> self' = self\<lparr>interval := Some iv\<rparr>
     \<and> d' = bulk_create (batch fmt self (eligible_student_apps self d) (datapoints_all self d) iv starts)
               (save self' (due_datapoints_delete self d))"
proof -
  let ?ps = "datapoints_all self d"
  let ?apps = "eligible_student_apps self d"
  from assms obtain e where e: "ends self = Some e"
    by (cases "ends self") (auto simp: create_due_datapoints_def datetime_sub_def)
  from assms e have ne: "?ps \<noteq> []"
    by (auto simp: create_due_datapoints_def datetime_sub_def timedelta_truediv_def)
  define iv where "iv = divide_and_round (e - starts) (int (length ?ps))"
  from assms e ne have nz: "iv \<noteq> 0"
    by (auto simp: create_due_datapoints_def datetime_sub_def timedelta_truediv_def
        float_truediv_def total_seconds_def iv_def)
  from assms e ne nz have cap:
    "\<not> of_int (BLOCK_SIZE cfg) < of_nat (length ?apps) * (PRODUCER_INTERVAL cfg / total_seconds iv)"
    by (auto simp: create_due_datapoints_def datetime_sub_def timedelta_truediv_def
        float_truediv_def total_seconds_def iv_def logger_critical_def split: if_splits)
  from assms e ne nz cap have self': "self' = self\<lparr>interval := Some iv\<rparr>"
    and loop: "add_student_apps fmt now (self\<lparr>interval := Some iv\<rparr>)
        (save (self\<lparr>interval := Some iv\<rparr>) (due_datapoints_delete self d)) ?apps ?ps starts = (None, d')"
    by (auto simp: create_due_datapoints_def datetime_sub_def timedelta_truediv_def
        float_truediv_def total_seconds_def iv_def Let_def split: prod.splits)
  from add_student_apps_ok[OF loop, of e] e
  have "d' = bulk_create (batch fmt self ?apps ?ps iv starts) (save self' (due_datapoints_delete self d))"
    by (simp add: iv_def self')
  with e ne nz cap self' show ?thesis
    unfolding iv_def by blast
qed

subsection \<open>Rounded division\<close>

lemma divide_and_round_nonneg:
  assumes "0 \<le> a" and "0 < b"
  shows "0 \<le> divide_and_round a b"
proof -
  from assms have "0 \<le> a div b"
    by (simp add: pos_imp_zdiv_nonneg_iff)
  then show ?thesis
    by (simp add: divide_and_round_def Let_def)
qed

lemma divide_and_round_nearest:
  assumes "0 < b"
  shows "2 * \<bar>b * divide_and_round a b - a\<bar> \<le> b"
proof -
  define q where "q = a div b"
  define m where "m = a mod b"
  have a: "a = b * q + m"
    by (simp add: q_def m_def)
  have m: "0 \<le> m" "m < b"
    using assms by (simp_all add: m_def)
  have up: "b * (q + 1) - a = b - m"
    by (simp add: a algebra_simps)
  have down: "b * q - a = - m"
    by (simp add: a)
  show ?thesis
  proof (cases "b < 2 * m \<or> (2 * m = b \<and> q mod 2 = 1)")
    case True
    then have "divide_and_round a b = q + 1"
      using assms by (simp add: divide_and_round_def Let_def q_def m_def)
    with up True m show ?thesis
      by auto
  next
    case False
    then have "divide_and_round a b = q"
      using assms by (auto simp add: divide_and_round_def Let_def q_def m_def)
    with down False m show ?thesis
      by auto
  qed
qed

text \<open>The quotient rounds to zero exactly when it is at most one half in absolute
  value: the tie goes to the even number 0.\<close>

lemma divide_and_round_zero_iff:
  assumes "0 < b"
  shows "divide_and_round a b = 0 \<longleftrightarrow> 2 * \<bar>a\<bar> \<le> b"
proof -
  define q where "q = a div b"
  define m where "m = a mod b"
  have a: "a = b * q + m"
    by (simp add: q_def m_def)
  have m: "0 \<le> m" "m < b"
    using assms by (simp_all add: m_def)
  have r: "divide_and_round a b =
      (if b < 2 * m \<or> (2 * m = b \<and> q mod 2 = 1) then q + 1 else q)"
    using assms by (simp add: divide_and_round_def Let_def q_def m_def)
  consider "q = 0" | "q = - 1" | "1 \<le> q" | "q \<le> - 2"
    by linarith
  then show ?thesis
  proof cases
    case 1
    then have "a = m" by (simp add: a)
    with 1 m r show ?thesis by auto
  next
    case 2
    then have "a = m - b" by (simp add: a)
    with 2 m r show ?thesis by auto
  next
    case 3
    with assms have "b * 1 \<le> b * q"
      by (intro mult_left_mono) simp_all
    then have "b \<le> a"
      using m a by linarith
    with 3 assms r show ?thesis by auto
  next
    case 4
    with assms have "b * q \<le> b * (- 2)"
      by (intro mult_left_mono) simp_all
    then have "a < - b"
      using m a assms by linarith
    with 4 assms r show ?thesis by auto
  qed
qed

subsection \<open>The rows of a run after a generation that returned\<close>

lemma run_rows_after:
  assumes "fst (create_due_datapoints cfg fmt now self d starts) = None"
    and "ends self = Some e"
  defines "r \<equiv> snd (create_due_datapoints cfg fmt now self d starts)"
    and "iv \<equiv> divide_and_round (e - starts) (int (length (datapoints_all self d)))"
    and "fresh \<equiv> batch fmt self (eligible_student_apps self d) (datapoints_all self d)
           (divide_and_round (e - starts) (int (length (datapoints_all self d)))) starts"
  shows "fst r = self\<lparr>interval := Some iv\<rparr>"
    and "due_datapoints (snd r) =
           filter (\<lambda>x. dd_simulator x \<noteq> sim_id self) (due_datapoints d) @ fresh"
    and "due_datapoints_all (fst r) (snd r) = fresh"
    and "iv \<noteq> 0" and "datapoints_all self d \<noteq> []"
proof -
  obtain self' d' where c: "create_due_datapoints cfg fmt now self d starts = (None, self', d')"
    using assms(1) by (metis prod.collapse)
  from create_due_datapoints_ok[OF c] assms(2)
  have nz: "iv \<noteq> 0" and ne: "datapoints_all self d \<noteq> []"
    and s: "self' = self\<lparr>interval := Some iv\<rparr>"
    and d': "d' = bulk_create fresh (save self' (due_datapoints_delete self d))"
    by (auto simp: iv_def fresh_def)
  show "iv \<noteq> 0" by (rule nz)
  show "datapoints_all self d \<noteq> []" by (rule ne)
  show "fst r = self\<lparr>interval := Some iv\<rparr>"
    by (simp add: r_def c s)
  show tab: "due_datapoints (snd r) =
           filter (\<lambda>x. dd_simulator x \<noteq> sim_id self) (due_datapoints d) @ fresh"
    by (simp add: r_def c d' bulk_create_def save_def due_datapoints_delete_def)
  have "filter (\<lambda>x. dd_simulator x = sim_id self) fresh = fresh"
    by (rule filter_True) (auto simp: fresh_def dest: batch_simulator)
  moreover have "sim_id (fst r) = sim_id self"
    by (simp add: r_def c s)
  ultimately show "due_datapoints_all (fst r) (snd r) = fresh"
    by (simp add: due_datapoints_all_def tab)
qed

subsection \<open>\<^verbatim>\<open>start\<close> on a run that is not in state \<^verbatim>\<open>start\<close>\<close>

lemma create_due_datapoints_status:
  "status (fst (snd (create_due_datapoints cfg fmt now self d starts))) = status self"
  by (simp add: create_due_datapoints_def Let_def split: sum.splits option.splits prod.splits)

lemma start_status_not_start:
  "status (fst (snd (start cfg fmt now self d))) \<noteq> ''start''"
  by (simp add: start_def Let_def create_due_datapoints_status)

text \<open>
  Claim C7. \<^verbatim>\<open>start\<close> on a run whose status is \<^verbatim>\<open>started\<close> raises nothing and returns
  the run and the database as they were: no field of the run changes and no due row is
  created. And whatever the status of a run, a second \<^verbatim>\<open>start\<close> (at any later time
  \<open>now'\<close>) after a first one changes nothing any more, because the first one leaves a
  status other than \<^verbatim>\<open>start\<close>: starting twice is starting once.
\<close>

theorem start_on_started_is_noop:
  "(status self = ''started'' \<longrightarrow> start cfg fmt now self d = (None, self, d)) \<and>
   start cfg fmt now' (fst (snd (start cfg fmt now self d))) (snd (snd (start cfg fmt now self d)))
     = (None, snd (start cfg fmt now self d))"
proof
  show "status self = ''started'' \<longrightarrow> start cfg fmt now self d = (None, self, d)"
    by (simp add: start_def)
next
  let ?r = "start cfg fmt now self d"
  have "status (fst (snd ?r)) \<noteq> ''start''"
    by (rule start_status_not_start)
  then show "start cfg fmt now' (fst (snd ?r)) (snd (snd ?r)) = (None, snd ?r)"
    by (simp add: start_def[of cfg fmt now' "fst (snd ?r)"])
qed

theorem start_on_started_is_noop_witness:
  "status (example_run\<lparr>status := ''started''\<rparr>) = ''started'' \<and>
   start example_settings example_format 9 (example_run\<lparr>status := ''started''\<rparr>) example_db
     = (None, example_run\<lparr>status := ''started''\<rparr>, example_db)"
  using start_on_started_is_noop
    [of "example_run\<lparr>status := ''started''\<rparr>" example_settings example_format 9 example_db 9]
  by simp

subsection \<open>\<^verbatim>\<open>reset\<close>\<close>

text \<open>
  Claim C8. \<^verbatim>\<open>reset\<close> on a run whose status is \<^verbatim>\<open>reset\<close> leaves the run without any
  due row, whatever rows it had, and sets its status to \<^verbatim>\<open>stopped\<close>, in the object and
  in the saved row; the due rows of the other runs are kept.
\<close>

theorem reset_deletes_due_datapoints:
  assumes "status self = ''reset''"
  shows "due_datapoints_all (fst (reset self d)) (snd (reset self d)) = [] \<and>
         status (fst (reset self d)) = ''stopped'' \<and>
         fst (reset self d) = self\<lparr>status := ''stopped''\<rparr> \<and>
         simulators (snd (reset self d)) (sim_id self) = Some (self\<lparr>status := ''stopped''\<rparr>) \<and>
         due_datapoints (snd (reset self d)) =
           filter (\<lambda>x. dd_simulator x \<noteq> sim_id self) (due_datapoints d)"
  using assms
  by (simp add: reset_def Let_def save_def due_datapoints_delete_def due_datapoints_all_def)

theorem reset_deletes_due_datapoints_witness:
  "status (example_run\<lparr>status := ''reset''\<rparr>) = ''reset'' \<and>
   due_datapoints_all (example_run\<lparr>status := ''reset''\<rparr>) example_db = [example_old_row 1] \<and>
   due_datapoints_all (fst (reset (example_run\<lparr>status := ''reset''\<rparr>) example_db))
     (snd (reset (example_run\<lparr>status := ''reset''\<rparr>) example_db)) = [] \<and>
   status (fst (reset (example_run\<lparr>status := ''reset''\<rparr>) example_db)) = ''stopped''"
proof -
  have h: "status (example_run\<lparr>status := ''reset''\<rparr>) = ''reset''"
    by simp
  have old: "due_datapoints_all (example_run\<lparr>status := ''reset''\<rparr>) example_db = [example_old_row 1]"
    by (simp add: due_datapoints_all_def example_db_def example_run_def example_old_row_def)
  from reset_deletes_due_datapoints[OF h, of example_db] h old show ?thesis
    by blast
qed

subsection \<open>Evaluating the methods on the example run\<close>

lemmas method_defs =
  create_due_datapoints_def add_student_app_def datetime_sub_def timedelta_truediv_def
  divide_and_round_def total_seconds_def float_truediv_def logger_critical_def
  due_datapoints_delete_def datapoints_all_def eligible_student_apps_def save_def
  bulk_create_def DueDatapoint_def due_datapoints_all_def

lemmas example_defs =
  example_settings_def example_format_def example_run_def example_db_def example_old_row_def

lemma example_generation:
  "fst (create_due_datapoints example_settings example_format 0 example_run example_db 0) = None"
  by (simp add: method_defs example_defs Let_def)

lemma example_datapoints:
  "map dp_id (datapoints_all example_run example_db) = [1, 2, 4, 5]"
  by (simp add: datapoints_all_def example_defs)

lemma example_eligible:
  "map sa_student (eligible_student_apps example_run example_db) = [11, 13]"
  by (simp add: eligible_student_apps_def example_defs)

subsection \<open>A schedule generation that returns\<close>

text \<open>
  Claim C10. \<^verbatim>\<open>create_due_datapoints\<close> deletes the due rows of the run before anything
  else. When it returns without an exception, the due rows of the run are exactly the
  rows it has created, participant after participant; the table holds the rows of the
  other runs as before, followed by these. No row of the run from an earlier start is
  left.
\<close>

theorem generation_replaces_due_rows:
  assumes "fst (create_due_datapoints cfg fmt now self d starts) = None"
    and "ends self = Some e"
  shows "due_datapoints_all (fst (snd (create_due_datapoints cfg fmt now self d starts)))
           (snd (snd (create_due_datapoints cfg fmt now self d starts))) =
         batch fmt self (eligible_student_apps self d) (datapoints_all self d)
           (divide_and_round (e - starts) (int (length (datapoints_all self d)))) starts \<and>
         due_datapoints (snd (snd (create_due_datapoints cfg fmt now self d starts))) =
         filter (\<lambda>x. dd_simulator x \<noteq> sim_id self) (due_datapoints d) @
         batch fmt self (eligible_student_apps self d) (datapoints_all self d)
           (divide_and_round (e - starts) (int (length (datapoints_all self d)))) starts"
  using run_rows_after(2,3)[OF assms] by simp

theorem generation_replaces_due_rows_witness:
  "fst (create_due_datapoints example_settings example_format 0 example_run example_db 0) = None \<and>
   ends example_run = Some 2400000000 \<and>
   due_datapoints_all example_run example_db = [example_old_row 1] \<and>
   map dd_due (due_datapoints_all
     (fst (snd (create_due_datapoints example_settings example_format 0 example_run example_db 0)))
     (snd (snd (create_due_datapoints example_settings example_format 0 example_run example_db 0))))
   = [Some 0, Some 600000000, Some 1200000000, Some 1800000000,
      Some 0, Some 600000000, Some 1200000000, Some 1800000000]"
proof -
  have e: "ends example_run = Some 2400000000"
    by (simp add: example_run_def)
  have old: "due_datapoints_all example_run example_db = [example_old_row 1]"
    by (simp add: due_datapoints_all_def example_defs)
  have "map dd_due (batch example_format example_run
          (eligible_student_apps example_run example_db) (datapoints_all example_run example_db)
          (divide_and_round (2400000000 - 0) (int (length (datapoints_all example_run example_db)))) 0)
        = [Some 0, Some 600000000, Some 1200000000, Some 1800000000,
           Some 0, Some 600000000, Some 1200000000, Some 1800000000]"
    by (simp add: batch_def url_of_def method_defs example_defs Let_def)
  with generation_replaces_due_rows[OF example_generation e] e old example_generation
  show ?thesis
    by simp
qed

text \<open>
  Claim C3, as stated, fails: with two eligible enrolments of student 11 the generation
  returns for \<open>N = 4\<close> and \<open>M = 2\<close> and creates \<open>8\<close> due rows, but every pair (student,
  data point) occurs twice.
\<close>

theorem generation_pairs_counterexample:
  "fst (create_due_datapoints example_settings example_format 0 example_run duplicate_db 0) = None \<and>
   length (datapoints_all example_run duplicate_db) = 4 \<and>
   length (eligible_student_apps example_run duplicate_db) = 2 \<and>
   distinct (map dp_id (datapoints duplicate_db)) \<and>
   map (\<lambda>x. (dd_student x, dd_datapoint x)) (due_datapoints_all
     (fst (snd (create_due_datapoints example_settings example_format 0 example_run duplicate_db 0)))
     (snd (snd (create_due_datapoints example_settings example_format 0 example_run duplicate_db 0))))
   = [(11, 1), (11, 2), (11, 4), (11, 5), (11, 1), (11, 2), (11, 4), (11, 5)] \<and>
   \<not> distinct (map (\<lambda>x. (dd_student x, dd_datapoint x)) (due_datapoints_all
     (fst (snd (create_due_datapoints example_settings example_format 0 example_run duplicate_db 0)))
     (snd (snd (create_due_datapoints example_settings example_format 0 example_run duplicate_db 0)))))"
  by (simp add: method_defs example_defs duplicate_db_def Let_def)

text \<open>
  Claim C3, amended. When \<^verbatim>\<open>create_due_datapoints\<close> returns without an exception for a
  run with \<open>N\<close> data points and \<open>M\<close> eligible enrolments (of the capstone of the run,
  with a non-empty application name), the run has exactly \<open>N * M\<close> due rows, and
  \<open>N \<ge> 1\<close>. The pairs (student, data point) of these rows are pairwise distinct when
  no two eligible enrolments are of one student, the primary keys of the data points
  being distinct.
\<close>

theorem generation_counts_and_pairs:
  assumes "fst (create_due_datapoints cfg fmt now self d starts) = None"
  shows "length (due_datapoints_all (fst (snd (create_due_datapoints cfg fmt now self d starts)))
           (snd (snd (create_due_datapoints cfg fmt now self d starts)))) =
         length (datapoints_all self d) * length (eligible_student_apps self d) \<and>
         1 \<le> length (datapoints_all self d) \<and>
         (distinct (map dp_id (datapoints d)) \<longrightarrow>
          distinct (map sa_student (eligible_student_apps self d)) \<longrightarrow>
          distinct (map (\<lambda>x. (dd_student x, dd_datapoint x))
            (due_datapoints_all (fst (snd (create_due_datapoints cfg fmt now self d starts)))
              (snd (snd (create_due_datapoints cfg fmt now self d starts))))))"
proof -
  let ?r = "snd (create_due_datapoints cfg fmt now self d starts)"
  obtain self' d' where c: "create_due_datapoints cfg fmt now self d starts = (None, self', d')"
    using assms(1) by (metis prod.collapse)
  from create_due_datapoints_ok[OF c] obtain e where e: "ends self = Some e"
    by blast
  note rows = run_rows_after(3)[OF assms(1) e]
  have ne: "datapoints_all self d \<noteq> []"
    by (rule run_rows_after(5)[OF assms(1) e])
  have "distinct (map (\<lambda>x. (dd_student x, dd_datapoint x)) (due_datapoints_all (fst ?r) (snd ?r)))"
    if ids: "distinct (map dp_id (datapoints d))"
      and students: "distinct (map sa_student (eligible_student_apps self d))"
  proof -
    have "distinct (map dp_id (datapoints_all self d))"
      unfolding datapoints_all_def using ids by (rule distinct_map_filter)
    then show ?thesis
      unfolding rows using students by (rule batch_pairs_distinct)
  qed
  moreover have "length (due_datapoints_all (fst ?r) (snd ?r)) =
      length (datapoints_all self d) * length (eligible_student_apps self d)"
    unfolding rows by (rule batch_length)
  moreover have "1 \<le> length (datapoints_all self d)"
    using ne by (cases "datapoints_all self d") simp_all
  ultimately show ?thesis
    by blast
qed

theorem generation_counts_and_pairs_witness:
  "fst (create_due_datapoints example_settings example_format 0 example_run example_db 0) = None \<and>
   distinct (map dp_id (datapoints example_db)) \<and>
   distinct (map sa_student (eligible_student_apps example_run example_db)) \<and>
   length (datapoints_all example_run example_db) = 4 \<and>
   length (eligible_student_apps example_run example_db) = 2 \<and>
   length (due_datapoints_all
     (fst (snd (create_due_datapoints example_settings example_format 0 example_run example_db 0)))
     (snd (snd (create_due_datapoints example_settings example_format 0 example_run example_db 0))))
   = 4 * 2 \<and>
   distinct (map (\<lambda>x. (dd_student x, dd_datapoint x)) (due_datapoints_all
     (fst (snd (create_due_datapoints example_settings example_format 0 example_run example_db 0)))
     (snd (snd (create_due_datapoints example_settings example_format 0 example_run example_db 0)))))"
proof -
  have 1: "distinct (map dp_id (datapoints example_db))"
    by (simp add: example_db_def)
  have 2: "distinct (map sa_student (eligible_student_apps example_run example_db))"
    by (simp add: example_eligible)
  have 3: "length (datapoints_all example_run example_db) = 4"
    using arg_cong[OF example_datapoints, of length] by simp
  have 4: "length (eligible_student_apps example_run example_db) = 2"
    using arg_cong[OF example_eligible, of length] by simp
  from generation_counts_and_pairs[OF example_generation] example_generation 1 2 3 4
  show ?thesis
    by simp
qed

text \<open>
  Claim C4. When \<^verbatim>\<open>create_due_datapoints\<close> returns without an exception for a run that
  ends after \<open>starts\<close> (\<^verbatim>\<open>start\<close> passes the time of the start), the rows of the \<open>j\<close>-th
  eligible participant, which are the \<open>j\<close>-th block of \<open>N\<close> due rows of the run, carry
  the due times \<open>starts\<close>, \<open>starts + interval\<close>, \<open>starts + 2 * interval\<close> and so on, the
  \<open>i\<close>-th of them on the \<open>i\<close>-th data point of the run, in strictly increasing order.
  The interval is the one stored in the run: \<^verbatim>\<open>(ends - starts) / N\<close> as Python divides a
  \<^verbatim>\<open>timedelta\<close>, that is the quotient to the nearest microsecond; it is positive, and
  there is at least one data point. When no two eligible enrolments are of one student,
  the block is the list of all due rows of the run for this student.
\<close>

theorem due_times_arithmetic:
  assumes "fst (create_due_datapoints cfg fmt now self d starts) = None"
    and "ends self = Some e"
    and "starts < e"
    and "j < length (eligible_student_apps self d)"
  shows "let r = snd (create_due_datapoints cfg fmt now self d starts);
             n = length (datapoints_all self d);
             iv = divide_and_round (e - starts) (int n);
             a = eligible_student_apps self d ! j;
             rows = rows_of_enrolment j n (due_datapoints_all (fst r) (snd r))
         in map dd_due rows = map (\<lambda>i. Some (starts + int i * iv)) [0..<n] \<and>
            map dd_datapoint rows = map dp_id (datapoints_all self d) \<and>
            map dd_student rows = replicate n (sa_student a) \<and>
            sorted_wrt (<) (map (\<lambda>x. the (dd_due x)) rows) \<and>
            interval (fst r) = Some iv \<and> 0 < iv \<and>
            2 * \<bar>int n * iv - (e - starts)\<bar> \<le> int n \<and> 1 \<le> n \<and>
            (distinct (map sa_student (eligible_student_apps self d)) \<longrightarrow>
             due_of_student (sa_student a) (due_datapoints_all (fst r) (snd r)) = rows)"
proof -
  define r where "r = snd (create_due_datapoints cfg fmt now self d starts)"
  define n where "n = length (datapoints_all self d)"
  define iv where "iv = divide_and_round (e - starts) (int n)"
  define a where "a = eligible_student_apps self d ! j"
  define rows where "rows = rows_of_enrolment j n (due_datapoints_all (fst r) (snd r))"
  note after = run_rows_after[OF assms(1,2)]
  have rows: "rows = due_rows self a (url_of fmt self a) iv (datapoints_all self d) starts"
    unfolding rows_def r_def after(3) iv_def n_def a_def using assms(4) by (rule batch_block)
  have n: "0 < n"
    using after(5) by (simp add: n_def)
  have nz: "iv \<noteq> 0"
    using after(4) by (simp add: iv_def n_def)
  have "0 \<le> iv"
    unfolding iv_def using assms(3) n by (intro divide_and_round_nonneg) simp_all
  with nz have pos: "0 < iv"
    by simp
  have due: "map dd_due rows = map (\<lambda>i. Some (starts + int i * iv)) [0..<n]"
    by (simp add: rows due_rows_due n_def)
  have "map (\<lambda>x. the (dd_due x)) rows = map the (map dd_due rows)"
    by simp
  also have "\<dots> = map (\<lambda>i. starts + int i * iv) [0..<n]"
    by (simp add: due)
  finally have "sorted_wrt (<) (map (\<lambda>x. the (dd_due x)) rows)"
    using pos by (simp add: sorted_wrt_map sorted_wrt_iff_nth_less)
  moreover have "map dd_datapoint rows = map dp_id (datapoints_all self d)"
    by (simp add: rows due_rows_datapoint)
  moreover have "map dd_student rows = replicate n (sa_student a)"
    by (simp add: rows n_def due_rows_students)
  moreover have "interval (fst r) = Some iv"
    using after(1) by (simp add: r_def iv_def n_def)
  moreover have "2 * \<bar>int n * iv - (e - starts)\<bar> \<le> int n"
    unfolding iv_def using n by (intro divide_and_round_nearest) simp
  moreover have "due_of_student (sa_student a) (due_datapoints_all (fst r) (snd r)) = rows"
    if "distinct (map sa_student (eligible_student_apps self d))"
  proof -
    have "a \<in> set (eligible_student_apps self d)"
      unfolding a_def using assms(4) by (rule nth_mem)
    with that show ?thesis
      unfolding rows r_def after(3) iv_def n_def by (rule batch_of_student)
  qed
  ultimately show ?thesis
    using due pos n
    by (simp add: Let_def r_def[symmetric] n_def[symmetric] iv_def[symmetric] a_def[symmetric]
        rows_def[symmetric])
qed

theorem due_times_arithmetic_witness:
  "fst (create_due_datapoints example_settings example_format 0 example_run example_db 0) = None \<and>
   ends example_run = Some 2400000000 \<and>
   (0::int) < 2400000000 \<and>
   1 < length (eligible_student_apps example_run example_db) \<and>
   distinct (map sa_student (eligible_student_apps example_run example_db)) \<and>
   sa_student (eligible_student_apps example_run example_db ! 1) = 13 \<and>
   map dd_due (rows_of_enrolment 1 4 (due_datapoints_all
     (fst (snd (create_due_datapoints example_settings example_format 0 example_run example_db 0)))
     (snd (snd (create_due_datapoints example_settings example_format 0 example_run example_db 0)))))
   = [Some 0, Some 600000000, Some 1200000000, Some 1800000000] \<and>
   map dd_datapoint (rows_of_enrolment 1 4 (due_datapoints_all
     (fst (snd (create_due_datapoints example_settings example_format 0 example_run example_db 0)))
     (snd (snd (create_due_datapoints example_settings example_format 0 example_run example_db 0)))))
   = [1, 2, 4, 5] \<and>
   due_of_student 13 (due_datapoints_all
     (fst (snd (create_due_datapoints example_settings example_format 0 example_run example_db 0)))
     (snd (snd (create_due_datapoints example_settings example_format 0 example_run example_db 0))))
   = rows_of_enrolment 1 4 (due_datapoints_all
     (fst (snd (create_due_datapoints example_settings example_format 0 example_run example_db 0)))
     (snd (snd (create_due_datapoints example_settings example_format 0 example_run example_db 0))))"
proof -
  let ?r = "snd (create_due_datapoints example_settings example_format 0 example_run example_db 0)"
  have e: "ends example_run = Some 2400000000"
    by (simp add: example_run_def)
  have lt: "(0::int) < 2400000000"
    by simp
  have j: "1 < length (eligible_student_apps example_run example_db)"
    using arg_cong[OF example_eligible, of length] by simp
  have dist: "distinct (map sa_student (eligible_student_apps example_run example_db))"
    by (simp add: example_eligible)
  have a: "sa_student (eligible_student_apps example_run example_db ! 1) = 13"
    by (simp add: eligible_student_apps_def example_defs)
  have n: "length (datapoints_all example_run example_db) = 4"
    using arg_cong[OF example_datapoints, of length] by simp
  have iv: "divide_and_round 2400000000 4 = 600000000"
    by (simp add: divide_and_round_def)
  have upt: "[0..<4] = [0, 1, 2, 3]"
    by (simp add: upt_rec)
  note inst = due_times_arithmetic[OF example_generation e lt j, unfolded Let_def n a]
  from inst have 1: "map dd_due (rows_of_enrolment 1 4 (due_datapoints_all (fst ?r) (snd ?r)))
     = [Some 0, Some 600000000, Some 1200000000, Some 1800000000]"
    by (simp add: iv upt)
  from inst have 2: "map dd_datapoint (rows_of_enrolment 1 4 (due_datapoints_all (fst ?r) (snd ?r)))
     = [1, 2, 4, 5]"
    by (simp add: example_datapoints)
  from inst dist have 3: "due_of_student 13 (due_datapoints_all (fst ?r) (snd ?r))
     = rows_of_enrolment 1 4 (due_datapoints_all (fst ?r) (snd ?r))"
    by blast
  from example_generation e lt j dist a 1 2 3 show ?thesis
    by blast
qed

subsection \<open>The capacity check\<close>

text \<open>With an end time, at least one data point and an interval that is not zero, the
  method reaches the comparison of \<^verbatim>\<open>BLOCK_SIZE\<close> with the required requests per cycle.
  When the block is too small the statement that follows is \<^verbatim>\<open>logger.critical()\<close>,
  which raises; otherwise (also at equality) the interval is saved and the rows are
  created.\<close>

lemma create_due_datapoints_capacity_fails:
  assumes "ends self = Some e"
    and "datapoints_all self d \<noteq> []"
    and "divide_and_round (e - starts) (int (length (datapoints_all self d))) \<noteq> 0"
    and "of_int (BLOCK_SIZE cfg) <
           of_nat (length (eligible_student_apps self d)) *
           (PRODUCER_INTERVAL cfg /
            total_seconds (divide_and_round (e - starts) (int (length (datapoints_all self d)))))"
  shows "create_due_datapoints cfg fmt now self d starts =
           (Some TypeError, self, due_datapoints_delete self d)"
  using assms
  by (simp add: create_due_datapoints_def datetime_sub_def timedelta_truediv_def
      float_truediv_def total_seconds_def logger_critical_def Let_def)

lemma create_due_datapoints_capacity_passes:
  assumes "ends self = Some e"
    and "datapoints_all self d \<noteq> []"
    and "divide_and_round (e - starts) (int (length (datapoints_all self d))) \<noteq> 0"
    and "\<not> of_int (BLOCK_SIZE cfg) <
           of_nat (length (eligible_student_apps self d)) *
           (PRODUCER_INTERVAL cfg /
            total_seconds (divide_and_round (e - starts) (int (length (datapoints_all self d)))))"
  shows "create_due_datapoints cfg fmt now self d starts =
           (let self1 = self\<lparr>interval :=
                  Some (divide_and_round (e - starts) (int (length (datapoints_all self d))))\<rparr>;
                r = add_student_apps fmt now self1 (save self1 (due_datapoints_delete self d))
                      (eligible_student_apps self d) (datapoints_all self d) starts
            in (fst r, self1, snd r))"
  using assms
  by (simp add: create_due_datapoints_def datetime_sub_def timedelta_truediv_def
      float_truediv_def total_seconds_def Let_def split: prod.splits)

text \<open>
  Claim C2. The capacity check fails exactly when \<^verbatim>\<open>BLOCK_SIZE\<close> is smaller than the
  required figure, and the source means to raise a \<^verbatim>\<open>RuntimeError\<close> that carries the
  required and the available figure. It does not get there: for two participants, a
  cycle of 600 seconds, a producer interval of 600 seconds (2 requests required) and a
  block of 1, the exception that leaves \<^verbatim>\<open>create_due_datapoints\<close> is the \<^verbatim>\<open>TypeError\<close>
  of \<^verbatim>\<open>logger.critical()\<close>, which carries no figure.
\<close>

theorem capacity_failure_raises_TypeError:
  "of_int (BLOCK_SIZE slow_settings) <
     of_nat (length (eligible_student_apps example_run example_db)) *
     (PRODUCER_INTERVAL slow_settings / total_seconds 600000000) \<and>
   create_due_datapoints slow_settings example_format 0 example_run example_db 0 =
     (Some TypeError, example_run, due_datapoints_delete example_run example_db) \<and>
   fst (create_due_datapoints slow_settings example_format 0 example_run example_db 0) \<noteq>
     Some (RuntimeError 2 1)"
  by (simp add: method_defs example_defs slow_settings_def Let_def)

text \<open>
  Claim C1, as stated, fails: on the example run with the slow producer the capacity
  check fails and an exception leaves \<^verbatim>\<open>start\<close>, but the status is \<^verbatim>\<open>started\<close>, the
  run has a start time, and the due row it had is gone.
\<close>

theorem start_capacity_failure_counterexample:
  "status example_run = ''start'' \<and>
   of_int (BLOCK_SIZE slow_settings) <
     of_nat (length (eligible_student_apps example_run example_db)) *
     (PRODUCER_INTERVAL slow_settings / total_seconds 600000000) \<and>
   fst (start slow_settings example_format 0 example_run example_db) = Some TypeError \<and>
   status (fst (snd (start slow_settings example_format 0 example_run example_db))) = ''started'' \<and>
   started example_run = None \<and>
   started (fst (snd (start slow_settings example_format 0 example_run example_db))) = Some 0 \<and>
   due_datapoints_all example_run example_db = [example_old_row 1] \<and>
   due_datapoints_all (fst (snd (start slow_settings example_format 0 example_run example_db)))
     (snd (snd (start slow_settings example_format 0 example_run example_db))) = [] \<and>
   snd (start slow_settings example_format 0 example_run example_db) \<noteq> (example_run, example_db)"
  by (simp add: start_def method_defs example_defs slow_settings_def Let_def)

text \<open>
  Claim C1, amended. When the capacity check fails during \<^verbatim>\<open>start\<close>, an exception
  leaves \<^verbatim>\<open>start\<close> and the interval of the run is unchanged; the transition itself has
  happened before the check: the run, in the object and in the saved row, has status
  \<^verbatim>\<open>started\<close> and the start time \<open>now\<close>, and the due rows of the run have been deleted
  (those of other runs are kept).
\<close>

theorem start_capacity_failure:
  assumes "status self = ''start''"
    and "ends self = Some e"
    and "datapoints_all self d \<noteq> []"
    and "divide_and_round (e - now) (int (length (datapoints_all self d))) \<noteq> 0"
    and "of_int (BLOCK_SIZE cfg) <
           of_nat (length (eligible_student_apps self d)) *
           (PRODUCER_INTERVAL cfg /
            total_seconds (divide_and_round (e - now) (int (length (datapoints_all self d)))))"
  shows "fst (start cfg fmt now self d) \<noteq> None \<and>
         fst (snd (start cfg fmt now self d)) = self\<lparr>started := Some now, status := ''started''\<rparr> \<and>
         interval (fst (snd (start cfg fmt now self d))) = interval self \<and>
         simulators (snd (snd (start cfg fmt now self d))) (sim_id self) =
           Some (self\<lparr>started := Some now, status := ''started''\<rparr>) \<and>
         due_datapoints (snd (snd (start cfg fmt now self d))) =
           filter (\<lambda>x. dd_simulator x \<noteq> sim_id self) (due_datapoints d)"
proof -
  define self1 where "self1 = self\<lparr>started := Some now, status := ''started''\<rparr>"
  define d1 where "d1 = save self1 d"
  have ps: "datapoints_all self1 d1 = datapoints_all self d"
    by (simp add: datapoints_all_def self1_def d1_def save_def)
  have apps: "eligible_student_apps self1 d1 = eligible_student_apps self d"
    by (simp add: eligible_student_apps_def self1_def d1_def save_def)
  have e: "ends self1 = Some e"
    by (simp add: self1_def assms(2))
  have "create_due_datapoints cfg fmt now self1 d1 now =
          (Some TypeError, self1, due_datapoints_delete self1 d1)"
    using e assms(3,4,5) unfolding ps[symmetric] apps[symmetric]
    by (rule create_due_datapoints_capacity_fails)
  then have r: "start cfg fmt now self d = (Some TypeError, self1, due_datapoints_delete self1 d1)"
    using assms(1) by (simp add: start_def Let_def self1_def d1_def)
  show ?thesis
    unfolding r by (simp add: self1_def d1_def save_def due_datapoints_delete_def)
qed

theorem start_capacity_failure_witness:
  "status example_run = ''start'' \<and>
   ends example_run = Some 2400000000 \<and>
   datapoints_all example_run example_db \<noteq> [] \<and>
   divide_and_round (2400000000 - 0) (int (length (datapoints_all example_run example_db))) \<noteq> 0 \<and>
   of_int (BLOCK_SIZE slow_settings) <
     of_nat (length (eligible_student_apps example_run example_db)) *
     (PRODUCER_INTERVAL slow_settings /
      total_seconds (divide_and_round (2400000000 - 0)
        (int (length (datapoints_all example_run example_db))))) \<and>
   fst (start slow_settings example_format 0 example_run example_db) \<noteq> None \<and>
   interval (fst (snd (start slow_settings example_format 0 example_run example_db))) = None \<and>
   fst (snd (start slow_settings example_format 0 example_run example_db)) =
     example_run\<lparr>started := Some 0, status := ''started''\<rparr>"
proof -
  have 1: "status example_run = ''start''"
    by (simp add: example_run_def)
  have 2: "ends example_run = Some 2400000000"
    by (simp add: example_run_def)
  have 3: "datapoints_all example_run example_db \<noteq> []"
    by (simp add: datapoints_all_def example_defs)
  have 4: "divide_and_round (2400000000 - 0) (int (length (datapoints_all example_run example_db))) \<noteq> 0"
    by (simp add: datapoints_all_def example_defs divide_and_round_def)
  have 5: "of_int (BLOCK_SIZE slow_settings) <
     of_nat (length (eligible_student_apps example_run example_db)) *
     (PRODUCER_INTERVAL slow_settings /
      total_seconds (divide_and_round (2400000000 - 0)
        (int (length (datapoints_all example_run example_db)))))"
    by (simp add: datapoints_all_def eligible_student_apps_def example_defs slow_settings_def
        divide_and_round_def total_seconds_def)
  have 6: "interval example_run = None"
    by (simp add: example_run_def)
  from start_capacity_failure[OF 1 2 3 4 5, of example_format] 1 2 3 4 5 6
  show ?thesis
    by simp
qed

subsection \<open>Runs without data points, runs without participants\<close>

text \<open>
  Claim C5, as stated, fails: for the run without data points the exception is the
  \<^verbatim>\<open>ZeroDivisionError\<close> of the division of the window by the count, not a signal
  \<open>InvalidSchedule\<close> of a check placed before the division.
\<close>

theorem generation_without_datapoints_counterexample:
  "datapoints_all empty_run example_db = [] \<and>
   fst (create_due_datapoints example_settings example_format 0 empty_run example_db 0) =
     Some ZeroDivisionError \<and>
   fst (create_due_datapoints example_settings example_format 0 empty_run example_db 0) \<noteq>
     Some InvalidSchedule"
  by (simp add: method_defs example_defs empty_run_def Let_def)

text \<open>
  Claim C5, amended. For every run without data points \<^verbatim>\<open>create_due_datapoints\<close> raises
  before it creates any due row: the \<^verbatim>\<open>ZeroDivisionError\<close> of the division by the count,
  or a \<^verbatim>\<open>TypeError\<close> when the run has no end time. The due rows of the run have been
  deleted by then, so the run has none, and no row has been added to the table.
\<close>

theorem generation_without_datapoints:
  assumes "datapoints_all self d = []"
  shows "create_due_datapoints cfg fmt now self d starts =
           (Some (case ends self of None \<Rightarrow> TypeError | Some e \<Rightarrow> ZeroDivisionError),
            self, due_datapoints_delete self d) \<and>
         due_datapoints_all self (due_datapoints_delete self d) = [] \<and>
         set (due_datapoints (due_datapoints_delete self d)) \<subseteq> set (due_datapoints d)"
proof -
  have "create_due_datapoints cfg fmt now self d starts =
           (Some (case ends self of None \<Rightarrow> TypeError | Some e \<Rightarrow> ZeroDivisionError),
            self, due_datapoints_delete self d)"
    using assms
    by (simp add: create_due_datapoints_def datetime_sub_def timedelta_truediv_def Let_def
        split: option.splits)
  moreover have "due_datapoints_all self (due_datapoints_delete self d) = []"
    by (simp add: due_datapoints_all_def due_datapoints_delete_def)
  moreover have "set (due_datapoints (due_datapoints_delete self d)) \<subseteq> set (due_datapoints d)"
    by (simp add: due_datapoints_delete_def)
  ultimately show ?thesis
    by blast
qed

theorem generation_without_datapoints_witness:
  "datapoints_all empty_run example_db = [] \<and>
   due_datapoints_all empty_run example_db = [example_old_row 2] \<and>
   create_due_datapoints example_settings example_format 0 empty_run example_db 0 =
     (Some ZeroDivisionError, empty_run, due_datapoints_delete empty_run example_db) \<and>
   due_datapoints_all empty_run (due_datapoints_delete empty_run example_db) = []"
proof -
  have h: "datapoints_all empty_run example_db = []"
    by (simp add: datapoints_all_def example_defs empty_run_def)
  have old: "due_datapoints_all empty_run example_db = [example_old_row 2]"
    by (simp add: due_datapoints_all_def example_defs empty_run_def)
  have e: "ends empty_run = Some 2400000000"
    by (simp add: empty_run_def example_run_def)
  from generation_without_datapoints[OF h, of example_settings example_format 0 0] h old
  show ?thesis
    by (simp add: e)
qed

text \<open>
  Claim C9, as stated, fails: a run of three data points that ends one microsecond after
  \<open>starts\<close>, without any eligible participant, has the interval zero, and the division
  of the producer interval by it raises \<^verbatim>\<open>ZeroDivisionError\<close>.
\<close>

theorem generation_without_participants_counterexample:
  "length (datapoints_all short_run short_db) = 3 \<and>
   eligible_student_apps short_run short_db = [] \<and>
   ends short_run = Some 1 \<and>
   fst (create_due_datapoints example_settings example_format 0 short_run short_db 0) =
     Some ZeroDivisionError"
  by (simp add: method_defs example_defs short_run_def short_db_def Let_def)

text \<open>
  Claim C9, amended. For every run with \<open>N \<ge> 1\<close> data points, an end time that differs
  from \<open>starts\<close> by more than \<open>N / 2\<close> microseconds (so that the interval does not round
  to zero) and no eligible participant, and a block size that is not negative,
  \<^verbatim>\<open>create_due_datapoints\<close> returns without an exception and the run has no due row.
\<close>

theorem generation_without_participants:
  assumes "datapoints_all self d \<noteq> []"
    and "ends self = Some e"
    and "int (length (datapoints_all self d)) < 2 * \<bar>e - starts\<bar>"
    and "0 \<le> BLOCK_SIZE cfg"
    and "eligible_student_apps self d = []"
  shows "fst (create_due_datapoints cfg fmt now self d starts) = None \<and>
         due_datapoints_all (fst (snd (create_due_datapoints cfg fmt now self d starts)))
           (snd (snd (create_due_datapoints cfg fmt now self d starts))) = []"
proof -
  have n: "0 < int (length (datapoints_all self d))"
    using assms(1) by simp
  have nz: "divide_and_round (e - starts) (int (length (datapoints_all self d))) \<noteq> 0"
    using assms(3) by (simp add: divide_and_round_zero_iff[OF n])
  have cap: "\<not> of_int (BLOCK_SIZE cfg) <
           of_nat (length (eligible_student_apps self d)) *
           (PRODUCER_INTERVAL cfg /
            total_seconds (divide_and_round (e - starts) (int (length (datapoints_all self d)))))"
    using assms(4,5) by simp
  have ok: "fst (create_due_datapoints cfg fmt now self d starts) = None"
    by (simp add: create_due_datapoints_capacity_passes[OF assms(2,1) nz cap] Let_def assms(5))
  from run_rows_after(3)[OF ok assms(2)] ok show ?thesis
    by (simp add: assms(5) batch_Nil)
qed

theorem generation_without_participants_witness:
  "datapoints_all lonely_run example_db \<noteq> [] \<and>
   ends lonely_run = Some 2400000000 \<and>
   int (length (datapoints_all lonely_run example_db)) < 2 * \<bar>2400000000 - 0\<bar> \<and>
   0 \<le> BLOCK_SIZE example_settings \<and>
   eligible_student_apps lonely_run example_db = [] \<and>
   fst (create_due_datapoints example_settings example_format 0 lonely_run example_db 0) = None \<and>
   due_datapoints_all
     (fst (snd (create_due_datapoints example_settings example_format 0 lonely_run example_db 0)))
     (snd (snd (create_due_datapoints example_settings example_format 0 lonely_run example_db 0)))
     = []"
proof -
  have 1: "datapoints_all lonely_run example_db \<noteq> []"
    by (simp add: datapoints_all_def example_defs lonely_run_def)
  have 2: "ends lonely_run = Some 2400000000"
    by (simp add: lonely_run_def example_run_def)
  have 3: "int (length (datapoints_all lonely_run example_db)) < 2 * \<bar>2400000000 - 0\<bar>"
    by (simp add: datapoints_all_def example_defs lonely_run_def)
  have 4: "0 \<le> BLOCK_SIZE example_settings"
    by (simp add: example_settings_def)
  have 5: "eligible_student_apps lonely_run example_db = []"
    by (simp add: eligible_student_apps_def example_defs lonely_run_def)
  from generation_without_participants[OF 1 2 3 4 5, of example_format 0] 1 2 3 4 5
  show ?thesis
    by blast
qed

subsection \<open>A participant who joins late\<close>

text \<open>
  Claim C6. \<^verbatim>\<open>add_student_app\<close> called without \<^verbatim>\<open>starts\<close>, the call for a participant
  who joins a started run, is meant to create the rows of this participant from the
  current time on: \<^verbatim>\<open>due = starts or datetime.now(timezone.utc)\<close>. The next statement
  subtracts \<^verbatim>\<open>starts\<close>, which is \<^verbatim>\<open>None\<close>, from the end time: the call raises \<^verbatim>\<open>TypeError\<close>
  and creates no row, for every run, participant and list of data points.
\<close>

theorem add_student_app_without_starts_raises:
  "add_student_app fmt now self d a ps None = (Some TypeError, d)"
  by (simp add: add_student_app_def datetime_sub_def split: option.splits)

end
